theory Spec2Isabelle
  imports Main
begin

section \<open>A1 range notation in gsheets/sheets\_tools.py\<close>

text \<open>
  The development embeds the two helpers \<open>_convert_indices_to_a1\<close> and
  \<open>_parse_a1_to_indices\<close> of \<open>gsheets/sheets_tools.py\<close>, the merge-overlap test of
  \<open>read_sheet_values\<close> and the cell counts of \<open>format_cells\<close> and
  \<open>add_data_validation\<close>.

  Modelling conventions.
  \<^item> Python's unbounded integers are \<open>int\<close>.
  \<^item> Python strings are \<open>string\<close>, lists of 8-bit characters: the inputs considered are
    the strings over the code points 0..255. On these \<open>\d\<close> is exactly \<open>0\<close>..\<open>9\<close>
    and \<open>[A-Z]\<close> is exactly \<open>A\<close>..\<open>Z\<close>.
  \<^item> A Python value that may be \<open>None\<close> is an \<open>option\<close>; a raised exception is the
    \<open>Inl\<close> branch of a sum.
  \<^item> \<open>int(s)\<close> on a string of decimal digits is its decimal value (the optional limit of
    the interpreter on the number of digits is not modelled).
\<close>

datatype error = ValueError | TypeError | NonLatin1

subsection \<open>Character classes and library functions\<close>

definition ord :: "char \<Rightarrow> int" where
  "ord c = int (of_char c)"

text \<open>\<open>[A-Z]\<close> and \<open>\d\<close> of the two patterns.\<close>

definition is_upper :: "char \<Rightarrow> bool" where
  "is_upper c = (65 \<le> ord c \<and> ord c \<le> 90)"

definition is_digit :: "char \<Rightarrow> bool" where
  "is_digit c = (48 \<le> ord c \<and> ord c \<le> 57)"

text \<open>
  \<open>chr(n)\<close> raises ValueError outside \<open>range(0x110000)\<close>. From 256 on Python returns a
  character that \<open>string\<close> does not have; the model marks it \<open>NonLatin1\<close>, and no
  theorem below reads that branch as a Python exception.
\<close>

definition chr :: "int \<Rightarrow> error + char" where
  "chr n = (if n < 0 \<or> 1114112 \<le> n then Inl ValueError
            else if n < 256 then Inr (char_of n)
            else Inl NonLatin1)"

text \<open>\<open>str(n)\<close> as used by the f-string: decimal digits, a minus sign when negative.\<close>

fun digits_of :: "nat \<Rightarrow> string" where
  "digits_of n = (if n < 10 then [char_of (48 + n)]
                  else digits_of (n div 10) @ [char_of (48 + n mod 10)])"

declare digits_of.simps [simp del]

definition str_int :: "int \<Rightarrow> string" where
  "str_int i = (if i < 0 then CHR ''-'' # digits_of (nat (- i)) else digits_of (nat i))"

text \<open>\<open>int(s)\<close> for \<open>s\<close> matched by \<open>\d+\<close>.\<close>

definition int_of_digits :: "string \<Rightarrow> int" where
  "int_of_digits s = foldl (\<lambda>acc c. 10 * acc + (ord c - 48)) 0 s"

text \<open>
  \<open>'!' in s\<close> together with \<open>s.split('!', 1)\<close>: \<open>None\<close> when \<open>s\<close> has no \<open>!\<close>, otherwise
  the text before the first \<open>!\<close> and the text after it.
\<close>

fun split_bang :: "string \<Rightarrow> (string \<times> string) option" where
  "split_bang [] = None"
| "split_bang (c # cs) =
     (if c = CHR ''!'' then Some ([], cs)
      else (case split_bang cs of
              None \<Rightarrow> None
            | Some (name, rest) \<Rightarrow> Some (c # name, rest)))"

subsection \<open>The two regular expressions\<close>

text \<open>
  \<open>re.match\<close> anchors the pattern at the start of the string and does not require it to
  reach the end. A group \<open>X+\<close> is greedy. In both patterns each group is followed by a
  class disjoint from its own (\<open>[A-Z]+\<close> by \<open>\d\<close>, the first \<open>\d+\<close> by \<open>:\<close>), or by
  nothing, so giving back characters of a group never produces a match: the match, when
  there is one, takes the longest run of each class. \<open>plus_class\<close> is one such group.
\<close>

definition plus_class :: "(char \<Rightarrow> bool) \<Rightarrow> string \<Rightarrow> (string \<times> string) option" where
  "plus_class P s =
     (if takeWhile P s = [] then None else Some (takeWhile P s, dropWhile P s))"

text \<open>\<open>re.match(r'([A-Z]+)(\d+)', s)\<close>: the groups, or \<open>None\<close>.\<close>

definition match_cell :: "string \<Rightarrow> (string \<times> string) option" where
  "match_cell s =
     (case plus_class is_upper s of
        None \<Rightarrow> None
      | Some (col, s1) \<Rightarrow>
          (case plus_class is_digit s1 of
             None \<Rightarrow> None
           | Some (row, s2) \<Rightarrow> Some (col, row)))"

text \<open>\<open>re.match(r'([A-Z]+)(\d+):([A-Z]+)(\d+)', s)\<close>: the four groups, or \<open>None\<close>.\<close>

definition match_range :: "string \<Rightarrow> (string \<times> string \<times> string \<times> string) option" where
  "match_range s =
     (case plus_class is_upper s of
        None \<Rightarrow> None
      | Some (start_col, s1) \<Rightarrow>
          (case plus_class is_digit s1 of
             None \<Rightarrow> None
           | Some (start_row, s2) \<Rightarrow>
               (case s2 of
                  [] \<Rightarrow> None
                | c # s3 \<Rightarrow>
                    if c \<noteq> CHR '':'' then None
                    else (case plus_class is_upper s3 of
                            None \<Rightarrow> None
                          | Some (end_col, s4) \<Rightarrow>
                              (case plus_class is_digit s4 of
                                 None \<Rightarrow> None
                               | Some (end_row, s5) \<Rightarrow>
                                   Some (start_col, start_row, end_col, end_row))))))"

subsection \<open>The decoder\<close>

text \<open>\<open>sum((ord(c) - 65) * (26 ** i) for i, c in enumerate(reversed(col)))\<close>\<close>

definition col_idx :: "string \<Rightarrow> int" where
  "col_idx col =
     sum_list (map (\<lambda>(i, c). (ord c - 65) * 26 ^ i) (List.enumerate 0 (rev col)))"

text \<open>
  The body of \<open>_parse_a1_to_indices\<close> after the sheet name has been split off: the
  two matches, tried in the source's order, and the four indices of each \<open>return\<close>
  (all four \<open>None\<close> when neither pattern matches).
\<close>

type_synonym bounds = "int option \<times> int option \<times> int option \<times> int option"

definition parse_range :: "string \<Rightarrow> bounds" where
  "parse_range a1 =
     (case match_range a1 of
        None \<Rightarrow>
          (case match_cell a1 of
             Some (col, row_s) \<Rightarrow>
               (let row = int_of_digits row_s; c = col_idx col
                in (Some (row - 1), Some row, Some c, Some (c + 1)))
           | None \<Rightarrow> (None, None, None, None))
      | Some (start_col, start_row, end_col, end_row) \<Rightarrow>
          (Some (int_of_digits start_row - 1), Some (int_of_digits end_row),
           Some (col_idx start_col), Some (col_idx end_col + 1)))"

text \<open>
  \<open>_parse_a1_to_indices\<close>: the 5-tuple \<open>(sheet_name, start_row, end_row, start_col,
  end_col)\<close>, the sheet name put in front of the four indices of every \<open>return\<close>.
\<close>

type_synonym indices = "string option \<times> bounds"

definition parse_a1_to_indices :: "string \<Rightarrow> indices" where
  "parse_a1_to_indices a1_range =
     (case split_bang a1_range of
        Some (sheet_name, a1) \<Rightarrow> (Some sheet_name, parse_range a1)
      | None \<Rightarrow> (None, parse_range a1_range))"

subsection \<open>The encoder\<close>

text \<open>
  The nested \<open>col_to_letter\<close> and \<open>_convert_indices_to_a1\<close>; \<open>//\<close> and \<open>%\<close> are the
  floor division and its remainder, as \<open>div\<close> and \<open>mod\<close> on \<open>int\<close>.
\<close>

definition col_to_letter :: "int \<Rightarrow> error + string" where
  "col_to_letter col =
     (if col < 26 then
        (case chr (65 + col) of Inl e \<Rightarrow> Inl e | Inr a \<Rightarrow> Inr [a])
      else
        (case chr (65 + col div 26 - 1) of
           Inl e \<Rightarrow> Inl e
         | Inr a \<Rightarrow> (case chr (65 + col mod 26) of Inl e \<Rightarrow> Inl e | Inr b \<Rightarrow> Inr [a, b])))"

definition convert_indices_to_a1 :: "int \<Rightarrow> int \<Rightarrow> int \<Rightarrow> int \<Rightarrow> error + string" where
  "convert_indices_to_a1 start_row end_row start_col end_col =
     (case col_to_letter start_col of
        Inl e \<Rightarrow> Inl e
      | Inr start_col_letter \<Rightarrow>
          (case col_to_letter (end_col - 1) of
             Inl e \<Rightarrow> Inl e
           | Inr end_col_letter \<Rightarrow>
               Inr (start_col_letter @ str_int (start_row + 1) @ '':'' @
                    end_col_letter @ str_int end_row)))"

subsection \<open>The overlap test of \<open>read_sheet_values\<close>\<close>

text \<open>A merge as the service reports it: a dict read with \<open>merge.get(key, 0)\<close>.\<close>

type_synonym merge = "string \<rightharpoonup> int"

definition dict_get :: "merge \<Rightarrow> string \<Rightarrow> int \<Rightarrow> int" where
  "dict_get d k dflt = (case d k of None \<Rightarrow> dflt | Some v \<Rightarrow> v)"

text \<open>
  \<open>a < b\<close> and \<open>a > b\<close> where an operand may be \<open>None\<close> (TypeError), and the
  short-circuit \<open>and\<close>, which does not evaluate its right operand after a false left one.
\<close>

definition py_lt :: "int option \<Rightarrow> int option \<Rightarrow> error + bool" where
  "py_lt a b = (case (a, b) of (Some x, Some y) \<Rightarrow> Inr (x < y) | _ \<Rightarrow> Inl TypeError)"

definition py_gt :: "int option \<Rightarrow> int option \<Rightarrow> error + bool" where
  "py_gt a b = (case (a, b) of (Some x, Some y) \<Rightarrow> Inr (x > y) | _ \<Rightarrow> Inl TypeError)"

definition py_and :: "error + bool \<Rightarrow> error + bool \<Rightarrow> error + bool" where
  "py_and a b = (case a of Inl e \<Rightarrow> Inl e | Inr False \<Rightarrow> Inr False | Inr True \<Rightarrow> b)"

text \<open>The condition of the \<open>if\<close> at lines 352--354, on the parsed range and one merge.\<close>

definition merge_overlaps :: "indices \<Rightarrow> merge \<Rightarrow> error + bool" where
  "merge_overlaps parsed merge =
     (case parsed of
        (sheet_name, start_row_idx, end_row_idx, start_col_idx, end_col_idx) \<Rightarrow>
          (let m_start_row = dict_get merge ''startRowIndex'' 0;
               m_end_row = dict_get merge ''endRowIndex'' 0;
               m_start_col = dict_get merge ''startColumnIndex'' 0;
               m_end_col = dict_get merge ''endColumnIndex'' 0
           in py_and (Inr (start_row_idx \<noteq> None))
             (py_and (py_lt (Some m_start_row) end_row_idx)
               (py_and (py_gt (Some m_end_row) start_row_idx)
                 (py_and (py_lt (Some m_start_col) end_col_idx)
                         (py_gt (Some m_end_col) start_col_idx))))))"

subsection \<open>The cell counts of \<open>format_cells\<close> and \<open>add_data_validation\<close>\<close>

definition py_sub :: "int option \<Rightarrow> int option \<Rightarrow> error + int" where
  "py_sub a b = (case (a, b) of (Some x, Some y) \<Rightarrow> Inr (x - y) | _ \<Rightarrow> Inl TypeError)"

text \<open>\<open>(end_row_idx - start_row_idx) * (end_col_idx - start_col_idx)\<close>, line 726.\<close>

definition cells_formatted :: "indices \<Rightarrow> error + int" where
  "cells_formatted parsed =
     (case parsed of
        (sheet_name, start_row_idx, end_row_idx, start_col_idx, end_col_idx) \<Rightarrow>
          (case py_sub end_row_idx start_row_idx of
             Inl e \<Rightarrow> Inl e
           | Inr h \<Rightarrow>
               (case py_sub end_col_idx start_col_idx of
                  Inl e \<Rightarrow> Inl e
                | Inr w \<Rightarrow> Inr (h * w))))"

text \<open>The same expression, line 1324.\<close>

definition cells_validated :: "indices \<Rightarrow> error + int" where
  "cells_validated parsed =
     (case parsed of
        (sheet_name, start_row_idx, end_row_idx, start_col_idx, end_col_idx) \<Rightarrow>
          (case py_sub end_row_idx start_row_idx of
             Inl e \<Rightarrow> Inl e
           | Inr h \<Rightarrow>
               (case py_sub end_col_idx start_col_idx of
                  Inl e \<Rightarrow> Inl e
                | Inr w \<Rightarrow> Inr (h * w))))"

subsection \<open>Notions of the specification\<close>

text \<open>
  The positional base-26 value of a letter string, A = 0 .. Z = 25, most significant
  letter first: the sum over \<open>i\<close> of the value of letter \<open>i\<close> times \<open>26 ^ (n - 1 - i)\<close>.
\<close>

definition positional_value :: "string \<Rightarrow> int" where
  "positional_value col =
     (\<Sum>i\<leftarrow>[0..<length col]. (ord (col ! i) - 65) * 26 ^ (length col - 1 - i))"

text \<open>The text range literal \<open>[SheetName!]span\<close>.\<close>

definition range_text :: "string option \<Rightarrow> string \<Rightarrow> string" where
  "range_text sheet span =
     (case sheet of None \<Rightarrow> span | Some name \<Rightarrow> name @ CHR ''!'' # span)"

text \<open>
  The text the two patterns are matched against: what follows the first \<open>!\<close>, or the
  whole text when there is none.
\<close>

definition span_of :: "string \<Rightarrow> string" where
  "span_of s = (case split_bang s of Some (name, rest) \<Rightarrow> rest | None \<Rightarrow> s)"

text \<open>The split the specification words: at the last \<open>!\<close>.\<close>

fun split_last_bang :: "string \<Rightarrow> (string \<times> string) option" where
  "split_last_bang [] = None"
| "split_last_bang (c # cs) =
     (case split_last_bang cs of
        Some (name, rest) \<Rightarrow> Some (c # name, rest)
      | None \<Rightarrow> if c = CHR ''!'' then Some ([], cs) else None)"

text \<open>A token pair \<open><COL><ROW>\<close> of the span grammar.\<close>

definition is_cell_ref :: "string \<Rightarrow> string \<Rightarrow> bool" where
  "is_cell_ref col row =
     (col \<noteq> [] \<and> list_all is_upper col \<and> row \<noteq> [] \<and> list_all is_digit row)"


text \<open>
  A sheet name and a span whose text \<open>range_text sheet span\<close> has its first \<open>!\<close>, if
  any, right after the sheet name.
\<close>

definition splits_as :: "string option \<Rightarrow> string \<Rightarrow> bool" where
  "splits_as sheet span =
     (case sheet of None \<Rightarrow> CHR ''!'' \<notin> set span | Some name \<Rightarrow> CHR ''!'' \<notin> set name)"

text \<open>Lowercase letters \<open>a\<close>..\<open>z\<close> and the uppercase form of a text.\<close>

definition is_lower :: "char \<Rightarrow> bool" where
  "is_lower c = (97 \<le> ord c \<and> ord c \<le> 122)"

definition to_upper :: "char \<Rightarrow> char" where
  "to_upper c = (if is_lower c then char_of (ord c - 32) else c)"

section \<open>Properties\<close>

subsection \<open>Library functions and the matchers\<close>

lemma col_idx_positional: "col_idx col = positional_value col"
proof -
  let ?n = "length col"
  have "col_idx col = (\<Sum>i<?n. (ord (rev col ! i) - 65) * 26 ^ i)"
    unfolding col_idx_def
    by (simp add: sum_list_sum_nth nth_enumerate_eq atLeast0LessThan)
  also have "\<dots> = (\<Sum>i<?n. (ord (col ! (?n - Suc i)) - 65) * 26 ^ (?n - Suc (?n - Suc i)))"
    by (rule sum.cong) (simp_all add: rev_nth)
  also have "\<dots> = (\<Sum>i<?n. (ord (col ! i) - 65) * 26 ^ (?n - Suc i))"
    by (rule sum.nat_diff_reindex)
  finally show ?thesis
    by (simp add: positional_value_def interv_sum_list_conv_sum_set_nat atLeast0LessThan)
qed




lemma split_bang_first:
  "CHR ''!'' \<notin> set name \<Longrightarrow> split_bang (name @ CHR ''!'' # rest) = Some (name, rest)"
  by (induction name) auto

lemma split_bang_none: "CHR ''!'' \<notin> set s \<Longrightarrow> split_bang s = None"
  by (induction s) auto

lemma split_bang_some:
  "split_bang s = Some (name, rest) \<Longrightarrow> s = name @ CHR ''!'' # rest \<and> CHR ''!'' \<notin> set name"
  by (induction s arbitrary: name) (auto split: if_splits option.splits)

lemma parse_range_text:
  "splits_as sheet span \<Longrightarrow>
     parse_a1_to_indices (range_text sheet span) = (sheet, parse_range span)"
  by (cases sheet)
     (simp_all add: splits_as_def range_text_def parse_a1_to_indices_def
        split_bang_none split_bang_first)

lemma plus_class_some:
  "plus_class P s = Some (tok, rest) \<Longrightarrow>
     s = tok @ rest \<and> tok \<noteq> [] \<and> list_all P tok \<and> (rest = [] \<or> \<not> P (hd rest))"
  by (auto simp add: plus_class_def list_all_iff hd_dropWhile split: if_splits dest: set_takeWhileD)

lemma plus_class_append:
  assumes "tok \<noteq> []" and "list_all P tok" and "rest = [] \<or> \<not> P (hd rest)"
  shows "plus_class P (tok @ rest) = Some (tok, rest)"
proof -
  from assms(3) have r: "takeWhile P rest = []" "dropWhile P rest = rest"
    by (cases rest; simp)+
  from assms(2) have "takeWhile P (tok @ rest) = tok" "dropWhile P (tok @ rest) = rest"
    using r by (simp_all add: list_all_iff)
  with assms(1) show ?thesis
    by (simp add: plus_class_def)
qed

lemma plus_class_none: "s = [] \<or> \<not> P (hd s) \<Longrightarrow> plus_class P s = None"
  by (cases s) (auto simp add: plus_class_def)

lemma digit_not_upper: "is_digit c \<Longrightarrow> \<not> is_upper c"
  by (simp add: is_digit_def is_upper_def)

lemma colon_classes: "\<not> is_digit CHR '':''" "\<not> is_upper CHR '':''"
  by (simp_all add: is_digit_def is_upper_def ord_def)

lemma cell_ref_no_bang:
  assumes "is_cell_ref col row"
  shows "CHR ''!'' \<notin> set col \<and> CHR ''!'' \<notin> set row"
proof -
  have "\<not> is_upper CHR ''!''" "\<not> is_digit CHR ''!''"
    by (simp_all add: is_upper_def is_digit_def ord_def)
  with assms show ?thesis
    by (auto simp add: is_cell_ref_def list_all_iff)
qed



lemma match_cell_tokens:
  assumes "is_cell_ref col row" and "t = [] \<or> \<not> is_digit (hd t)"
  shows "match_cell (col @ row @ t) = Some (col, row)"
proof -
  from assms(1) have c: "col \<noteq> []" "list_all is_upper col"
    and r: "row \<noteq> []" "list_all is_digit row"
    by (simp_all add: is_cell_ref_def)
  from r have "is_digit (hd row)"
    by (cases row) simp_all
  with r(1) have "\<not> is_upper (hd (row @ t))"
    by (simp add: digit_not_upper)
  then have "plus_class is_upper (col @ row @ t) = Some (col, row @ t)"
    using c by (intro plus_class_append) simp_all
  moreover have "plus_class is_digit (row @ t) = Some (row, t)"
    using r assms(2) by (intro plus_class_append) simp_all
  ultimately show ?thesis
    by (simp add: match_cell_def)
qed

lemma match_range_tokens:
  assumes "is_cell_ref c1 r1" and "is_cell_ref c2 r2" and "t = [] \<or> \<not> is_digit (hd t)"
  shows "match_range (c1 @ r1 @ CHR '':'' # c2 @ r2 @ t) = Some (c1, r1, c2, r2)"
proof -
  let ?u = "CHR '':'' # c2 @ r2 @ t"
  from assms(1) have c: "c1 \<noteq> []" "list_all is_upper c1"
    and r: "r1 \<noteq> []" "list_all is_digit r1"
    by (simp_all add: is_cell_ref_def)
  from r have "is_digit (hd r1)"
    by (cases r1) simp_all
  with r(1) have "\<not> is_upper (hd (r1 @ ?u))"
    by (simp add: digit_not_upper)
  then have 1: "plus_class is_upper (c1 @ r1 @ ?u) = Some (c1, r1 @ ?u)"
    using c by (intro plus_class_append) simp_all
  have 2: "plus_class is_digit (r1 @ ?u) = Some (r1, ?u)"
    using r by (intro plus_class_append) (simp_all add: colon_classes)
  from assms(2) have c': "c2 \<noteq> []" "list_all is_upper c2"
    and r': "r2 \<noteq> []" "list_all is_digit r2"
    by (simp_all add: is_cell_ref_def)
  from r' have "is_digit (hd r2)"
    by (cases r2) simp_all
  with r'(1) have "\<not> is_upper (hd (r2 @ t))"
    by (simp add: digit_not_upper)
  then have 3: "plus_class is_upper (c2 @ r2 @ t) = Some (c2, r2 @ t)"
    using c' by (intro plus_class_append) simp_all
  have 4: "plus_class is_digit (r2 @ t) = Some (r2, t)"
    using r' assms(3) by (intro plus_class_append) simp_all
  from 1 2 3 4 show ?thesis
    by (simp add: match_range_def)
qed


lemma match_cell_not_upper: "s = [] \<or> \<not> is_upper (hd s) \<Longrightarrow> match_cell s = None"
  by (simp add: match_cell_def plus_class_none)

lemma match_range_not_upper: "s = [] \<or> \<not> is_upper (hd s) \<Longrightarrow> match_range s = None"
  by (simp add: match_range_def plus_class_none)

lemma parse_via_span:
  "parse_a1_to_indices s = (map_option fst (split_bang s), parse_range (span_of s))"
  by (simp add: parse_a1_to_indices_def span_of_def split: option.splits)

text \<open>
  The matchers against the languages of the two patterns: a match is a decomposition of
  a prefix of the text into the groups, and every text with such a prefix is matched,
  the last group taking all the digits that follow.
\<close>

lemma match_cell_sound:
  "match_cell s = Some (col, row) \<Longrightarrow>
     \<exists>rest. s = col @ row @ rest \<and> is_cell_ref col row \<and> (rest = [] \<or> \<not> is_digit (hd rest))"
  by (auto simp add: match_cell_def is_cell_ref_def
      split: option.splits dest!: plus_class_some)

lemma match_range_sound:
  "match_range s = Some (c1, r1, c2, r2) \<Longrightarrow>
     \<exists>rest. s = c1 @ r1 @ CHR '':'' # c2 @ r2 @ rest \<and> is_cell_ref c1 r1 \<and> is_cell_ref c2 r2 \<and>
        (rest = [] \<or> \<not> is_digit (hd rest))"
  by (auto simp add: match_range_def is_cell_ref_def
      split: option.splits list.splits if_splits dest!: plus_class_some)

lemma greedy_digits:
  "is_cell_ref col row \<Longrightarrow> is_cell_ref col (row @ takeWhile is_digit rest)"
  "dropWhile is_digit rest = [] \<or> \<not> is_digit (hd (dropWhile is_digit rest))"
  by (cases "dropWhile is_digit rest = []";
      auto simp add: is_cell_ref_def list_all_iff hd_dropWhile dest: set_takeWhileD)+

lemma match_cell_complete:
  assumes "is_cell_ref col row"
  shows "match_cell (col @ row @ rest) = Some (col, row @ takeWhile is_digit rest)"
  using match_cell_tokens [OF greedy_digits(1) [OF assms] greedy_digits(2), of rest rest]
  by simp

lemma match_range_complete:
  assumes "is_cell_ref c1 r1" and "is_cell_ref c2 r2"
  shows "match_range (c1 @ r1 @ CHR '':'' # c2 @ r2 @ rest) =
           Some (c1, r1, c2, r2 @ takeWhile is_digit rest)"
  using match_range_tokens [OF assms(1) greedy_digits(1) [OF assms(2)] greedy_digits(2), of rest rest]
  by simp

lemma ord_char_of: "0 \<le> n \<Longrightarrow> n < 256 \<Longrightarrow> ord (char_of n) = n"
  by (simp add: ord_def of_nat_of_char)

lemma ord_char_of_nat: "n < 256 \<Longrightarrow> ord (char_of n) = int n"
  by (simp add: ord_def)

lemma int_of_digits_snoc: "int_of_digits (s @ [c]) = 10 * int_of_digits s + (ord c - 48)"
  by (simp add: int_of_digits_def)

lemma digits_of_props:
  "digits_of n \<noteq> [] \<and> list_all is_digit (digits_of n) \<and> int_of_digits (digits_of n) = int n"
proof (induction n rule: digits_of.induct)
  case (1 n)
  have o: "ord (char_of (48 + n mod 10)) = 48 + int (n mod 10)"
    by (subst ord_char_of_nat) simp_all
  then have d: "is_digit (char_of (48 + n mod 10))"
    by (simp add: is_digit_def)
  show ?case
  proof (cases "n < 10")
    case True
    with o d show ?thesis
      by (subst (1 2 3) digits_of.simps) (simp add: int_of_digits_def)
  next
    case False
    with 1 o d show ?thesis
      by (subst (1 2 3) digits_of.simps) (simp add: int_of_digits_snoc zmod_int zdiv_int)
  qed
qed

lemma str_int_props:
  assumes "0 \<le> i"
  shows "str_int i \<noteq> []" "list_all is_digit (str_int i)" "int_of_digits (str_int i) = i"
  using assms digits_of_props [of "nat i"] by (simp_all add: str_int_def)

lemma col_to_letter_single:
  assumes "0 \<le> col" and "col < 26"
  shows "col_to_letter col = Inr [char_of (65 + col)]"
    and "is_upper (char_of (65 + col))" and "col_idx [char_of (65 + col)] = col"
  using assms
  by (simp_all add: col_to_letter_def chr_def is_upper_def ord_char_of col_idx_def enumerate_eq_zip)

lemma roundtrip_single_letter:
  assumes "0 \<le> start_row" and "0 \<le> end_row"
    and "0 \<le> start_col" and "start_col < 26" and "0 < end_col" and "end_col \<le> 26"
  shows "\<exists>text. convert_indices_to_a1 start_row end_row start_col end_col = Inr text \<and>
           parse_a1_to_indices text =
             (None, Some start_row, Some end_row, Some start_col, Some end_col)"
proof -
  let ?a = "[char_of (65 + start_col)]" and ?b = "[char_of (65 + (end_col - 1))]"
  let ?r = "str_int (start_row + 1)" and ?q = "str_int end_row"
  let ?text = "?a @ ?r @ CHR '':'' # ?b @ ?q @ []"
  from assms have e: "convert_indices_to_a1 start_row end_row start_col end_col = Inr ?text"
    using col_to_letter_single(1) [of "end_col - 1"]
    by (simp add: convert_indices_to_a1_def col_to_letter_single(1))
  from assms have c1: "is_cell_ref ?a ?r"
    by (simp add: is_cell_ref_def col_to_letter_single(2) str_int_props)
  from assms have c2: "is_cell_ref ?b ?q"
    using col_to_letter_single(2) [of "end_col - 1"]
    by (simp add: is_cell_ref_def str_int_props)
  have m: "match_range ?text = Some (?a, ?r, ?b, ?q)"
    by (rule match_range_tokens [OF c1 c2]) simp
  from cell_ref_no_bang [OF c1] cell_ref_no_bang [OF c2] have "CHR ''!'' \<notin> set ?text"
    by simp
  then have "split_bang ?text = None"
    by (rule split_bang_none)
  with m assms have "parse_a1_to_indices ?text =
      (None, Some start_row, Some end_row, Some start_col, Some end_col)"
    using col_to_letter_single(3) [of "end_col - 1"]
    by (simp add: parse_a1_to_indices_def parse_range_def str_int_props(3)
          col_to_letter_single(3))
  with e show ?thesis
    by blast
qed

section \<open>The claims\<close>

subsection \<open>C1: round trip of encoding and decoding\<close>

text \<open>
  C1 asks that decoding the text produced by the encoder gives back the four bounds,
  for every rectangle with \<open>0 \<le> startRow < endRow\<close> and \<open>0 \<le> startCol < endCol < 18278\<close>.
  The code at the rectangle \<open>(0, 1, 26, 27)\<close>: the encoder writes column 26 as \<open>AA\<close>, and
  the decoder reads \<open>AA\<close> as column 0, so the columns that come back are \<open>(0, 1)\<close>. At
  \<open>(0, 1, 702, 703)\<close> the encoder, which writes two letters at most, produces \<open>[A\<close>, a
  text the decoder does not parse.
\<close>

theorem roundtrip_fails_from_column_26:
  "convert_indices_to_a1 0 1 26 27 = Inr ''AA1:AA1'' \<and>
   parse_a1_to_indices ''AA1:AA1'' = (None, Some 0, Some 1, Some 0, Some 1) \<and>
   convert_indices_to_a1 0 1 702 703 = Inr ''[A1:[A1'' \<and>
   parse_a1_to_indices ''[A1:[A1'' = (None, None, None, None, None)"
  by code_simp

subsection \<open>C2: the overlap test\<close>

text \<open>
  The test on the fields as the code reads them, a missing key counting as 0.
\<close>

lemma merge_overlaps_dict_get:
  "merge_overlaps (sheet, Some r0, Some r1, Some c0, Some c1) m =
     Inr (r0 < dict_get m ''endRowIndex'' 0 \<and> r1 > dict_get m ''startRowIndex'' 0 \<and>
          c0 < dict_get m ''endColumnIndex'' 0 \<and> c1 > dict_get m ''startColumnIndex'' 0)"
  by (auto simp add: merge_overlaps_def py_and_def py_lt_def py_gt_def Let_def
      split: bool.splits)

text \<open>
  C2: for a parsed read range \<open>R = (r0, r1, c0, c1)\<close> and a merge \<open>m\<close> that stores the
  bounds \<open>startRowIndex\<close>, \<open>endRowIndex\<close>, \<open>startColumnIndex\<close> and \<open>endColumnIndex\<close>, the
  test of \<open>read_sheet_values\<close> raises nothing and holds exactly when \<open>R.startRow <
  m.endRow\<close>, \<open>R.endRow > m.startRow\<close>, \<open>R.startCol < m.endCol\<close> and \<open>R.endCol >
  m.startCol\<close>; a range whose end row is the start row of the merge does not overlap it.
\<close>

theorem merge_overlaps_iff:
  assumes "m ''startRowIndex'' = Some m_start_row" and "m ''endRowIndex'' = Some m_end_row"
    and "m ''startColumnIndex'' = Some m_start_col" and "m ''endColumnIndex'' = Some m_end_col"
  shows "merge_overlaps (sheet, Some r0, Some r1, Some c0, Some c1) m =
           Inr (r0 < m_end_row \<and> r1 > m_start_row \<and> c0 < m_end_col \<and> c1 > m_start_col) \<and>
         merge_overlaps (sheet, Some r0, Some m_start_row, Some c0, Some c1) m = Inr False"
  using assms
  by (auto simp add: merge_overlaps_def dict_get_def py_and_def py_lt_def py_gt_def Let_def
      split: bool.splits)

theorem merge_overlaps_iff_witness:
  "merge_overlaps (None, Some 0, Some 3, Some 0, Some 2)
     [''startRowIndex'' \<mapsto> 2, ''endRowIndex'' \<mapsto> 5,
      ''startColumnIndex'' \<mapsto> 1, ''endColumnIndex'' \<mapsto> 4] = Inr True \<and>
   merge_overlaps (None, Some 0, Some 2, Some 0, Some 2)
     [''startRowIndex'' \<mapsto> 2, ''endRowIndex'' \<mapsto> 4,
      ''startColumnIndex'' \<mapsto> 0, ''endColumnIndex'' \<mapsto> 2] = Inr False \<and>
   merge_overlaps (None, Some 0, Some 3, Some 0, Some 2)
     [''sheetId'' \<mapsto> 7, ''startRowIndex'' \<mapsto> 3, ''endRowIndex'' \<mapsto> 5,
      ''startColumnIndex'' \<mapsto> 1, ''endColumnIndex'' \<mapsto> 4] = Inr False"
proof -
  let ?a = "[''startRowIndex'' \<mapsto> 2, ''endRowIndex'' \<mapsto> 5,
      ''startColumnIndex'' \<mapsto> 1, ''endColumnIndex'' \<mapsto> (4::int)]"
  let ?b = "[''startRowIndex'' \<mapsto> 2, ''endRowIndex'' \<mapsto> 4,
      ''startColumnIndex'' \<mapsto> 0, ''endColumnIndex'' \<mapsto> (2::int)]"
  let ?c = "[''sheetId'' \<mapsto> 7, ''startRowIndex'' \<mapsto> 3, ''endRowIndex'' \<mapsto> 5,
      ''startColumnIndex'' \<mapsto> 1, ''endColumnIndex'' \<mapsto> (4::int)]"
  have a: "?a ''startRowIndex'' = Some 2" "?a ''endRowIndex'' = Some 5"
    "?a ''startColumnIndex'' = Some 1" "?a ''endColumnIndex'' = Some 4"
    by simp_all
  have b: "?b ''startRowIndex'' = Some 2" "?b ''endRowIndex'' = Some 4"
    "?b ''startColumnIndex'' = Some 0" "?b ''endColumnIndex'' = Some 2"
    by simp_all
  have c: "?c ''startRowIndex'' = Some 3" "?c ''endRowIndex'' = Some 5"
    "?c ''startColumnIndex'' = Some 1" "?c ''endColumnIndex'' = Some 4"
    by simp_all
  have "merge_overlaps (None, Some 0, Some 3, Some 0, Some 2) ?a = Inr True"
    using merge_overlaps_iff [of ?a 2 5 1 4 None 0 3 0 2, OF a] by simp
  moreover have "merge_overlaps (None, Some 0, Some 2, Some 0, Some 2) ?b = Inr False"
    using merge_overlaps_iff [of ?b 2 4 0 2 None 0 2 0 2, OF b] by simp
  moreover have "merge_overlaps (None, Some 0, Some 3, Some 0, Some 2) ?c = Inr False"
    using merge_overlaps_iff [of ?c 3 5 1 4 None 0 3 0 2, OF c] by simp
  ultimately show ?thesis
    by (simp only: simp_thms)
qed

subsection \<open>C3: the decoded column is the positional base-26 value\<close>

text \<open>
  C3: the column index computed from a letter string is its positional base-26 value
  with A = 0 .. Z = 25, the most significant letter first; so for every text whose span
  matches the rectangle pattern the two decoded columns are the positional values of the
  two column tokens (the second plus one), and for every text whose span matches the
  single-cell pattern only the decoded column is the positional value of its token.
\<close>

theorem decoded_column_is_positional_value:
  "col_idx col = positional_value col \<and>
   (match_range (span_of s) = Some (c1, r1, c2, r2) \<longrightarrow>
      (\<exists>sheet sr er. parse_a1_to_indices s =
          (sheet, sr, er, Some (positional_value c1), Some (positional_value c2 + 1)))) \<and>
   (match_range (span_of s) = None \<and> match_cell (span_of s) = Some (c, r) \<longrightarrow>
      (\<exists>sheet sr er. parse_a1_to_indices s =
          (sheet, sr, er, Some (positional_value c), Some (positional_value c + 1))))"
  by (simp add: parse_via_span parse_range_def col_idx_positional Let_def)

theorem decoded_column_is_positional_value_witness:
  "match_range (span_of ''S!AB12:C4'') = Some (''AB'', ''12'', ''C'', ''4'') \<and>
   (\<exists>sheet sr er. parse_a1_to_indices ''S!AB12:C4'' = (sheet, sr, er, Some 1, Some 3)) \<and>
   match_range (span_of ''BC7'') = None \<and> match_cell (span_of ''BC7'') = Some (''BC'', ''7'') \<and>
   (\<exists>sheet sr er. parse_a1_to_indices ''BC7'' = (sheet, sr, er, Some 28, Some 29))"
proof -
  have m: "match_range (span_of ''S!AB12:C4'') = Some (''AB'', ''12'', ''C'', ''4'')"
    by code_simp
  have n: "match_range (span_of ''BC7'') = None \<and> match_cell (span_of ''BC7'') = Some (''BC'', ''7'')"
    by code_simp
  have v: "positional_value ''AB'' = 1" "positional_value ''C'' = 2" "positional_value ''BC'' = 28"
    by code_simp+
  from decoded_column_is_positional_value
         [of "''AB''" "''S!AB12:C4''" "''AB''" "''12''" "''C''" "''4''" "''A''" "''1''"]
       decoded_column_is_positional_value
         [of "''AB''" "''BC7''" "''AB''" "''12''" "''C''" "''4''" "''BC''" "''7''"]
       m n v
  show ?thesis by simp
qed

subsection \<open>C4: the column letters of the specification's examples\<close>

text \<open>
  C4 gives the decoded columns of \<open>A1\<close>, \<open>Z1\<close>, \<open>AA1\<close>, \<open>AZ1\<close> and \<open>BA1\<close> as 0, 25, 26,
  51 and 52. The code decodes them to 0, 25, 0, 25 and 26: a first letter \<open>A\<close> of a
  two-letter column counts for nothing.
\<close>

theorem decoded_example_columns:
  "parse_a1_to_indices ''A1'' = (None, Some 0, Some 1, Some 0, Some 1) \<and>
   parse_a1_to_indices ''Z1'' = (None, Some 0, Some 1, Some 25, Some 26) \<and>
   parse_a1_to_indices ''AA1'' = (None, Some 0, Some 1, Some 0, Some 1) \<and>
   parse_a1_to_indices ''AZ1'' = (None, Some 0, Some 1, Some 25, Some 26) \<and>
   parse_a1_to_indices ''BA1'' = (None, Some 0, Some 1, Some 26, Some 27)"
  by code_simp

subsection \<open>C5: malformed texts\<close>

text \<open>
  C5 as stated fails at \<open>A0\<close>: the decoder returns the bounds \<open>(-1, 0, 0, 1)\<close> for it.
\<close>

theorem row_zero_is_decoded:
  "parse_a1_to_indices ''A0'' = (None, Some (- 1), Some 0, Some 0, Some 1)"
  by code_simp

text \<open>
  C5, amended: for the empty text and for \<open>1A\<close> the decoder returns no sheet name and
  no bounds (all four \<open>None\<close>); it raises nothing.
\<close>

theorem malformed_text_has_no_bounds:
  "parse_a1_to_indices '''' = (None, None, None, None, None) \<and>
   parse_a1_to_indices ''1A'' = (None, None, None, None, None)"
  by code_simp

subsection \<open>C6: the bounds of a successful parse\<close>




subsection \<open>C7: the sheet name\<close>

text \<open>
  C7 as stated fails at \<open>A!B!C1\<close>: split at its last \<open>!\<close> the text has the sheet name
  \<open>A!B\<close> and the span \<open>C1\<close>, which decodes to \<open>(0, 1, 2, 3)\<close>; the decoder returns the
  sheet name \<open>A\<close> and no bounds.
\<close>

theorem sheet_name_not_up_to_last_bang:
  "parse_a1_to_indices ''A!B!C1'' = (Some ''A'', None, None, None, None) \<and>
   split_last_bang ''A!B!C1'' = Some (''A!B'', ''C1'') \<and>
   parse_range ''C1'' = (Some 0, Some 1, Some 2, Some 3)"
  by code_simp

text \<open>
  C7, amended: for every text that contains a \<open>!\<close>, the sheet name is the text before
  the first \<open>!\<close> and the bounds are those decoded from the text after it; for a text
  without \<open>!\<close> the sheet name is \<open>None\<close> and the bounds are decoded from the whole text.
\<close>

theorem sheet_name_ends_at_first_bang:
  "(CHR ''!'' \<notin> set name \<longrightarrow>
      parse_a1_to_indices (name @ CHR ''!'' # rest) = (Some name, parse_range rest)) \<and>
   (CHR ''!'' \<notin> set s \<longrightarrow> parse_a1_to_indices s = (None, parse_range s))"
  by (simp add: parse_a1_to_indices_def split_bang_first split_bang_none)

theorem sheet_name_ends_at_first_bang_witness:
  "CHR ''!'' \<notin> set ''A'' \<and>
   parse_a1_to_indices (''A'' @ CHR ''!'' # ''B!C1'') = (Some ''A'', parse_range ''B!C1'') \<and>
   CHR ''!'' \<notin> set ''C1'' \<and> parse_a1_to_indices ''C1'' = (None, parse_range ''C1'')"
  using sheet_name_ends_at_first_bang [of "''A''" "''B!C1''" "''C1''"]
  by simp

subsection \<open>C8: the cell count\<close>

text \<open>
  C8: on a parse result with all four bounds the count of \<open>format_cells\<close> and the count
  of \<open>add_data_validation\<close> are both \<open>(endRow - startRow) * (endCol - startCol)\<close>; the
  count is positive, hence non-negative, when \<open>startRow < endRow\<close> and \<open>startCol < endCol\<close>;
  and it is 15 for the bounds \<open>(0, 5, 0, 3)\<close>.
\<close>

theorem cell_count:
  "cells_formatted (sheet, Some r0, Some r1, Some c0, Some c1) = Inr ((r1 - r0) * (c1 - c0)) \<and>
   cells_validated (sheet, Some r0, Some r1, Some c0, Some c1) = Inr ((r1 - r0) * (c1 - c0)) \<and>
   (r0 < r1 \<and> c0 < c1 \<longrightarrow>
      (\<exists>n. cells_formatted (sheet, Some r0, Some r1, Some c0, Some c1) = Inr n \<and> 0 < n)) \<and>
   cells_formatted (sheet, Some 0, Some 5, Some 0, Some 3) = Inr 15"
  by (simp add: cells_formatted_def cells_validated_def py_sub_def)

theorem cell_count_witness:
  "(0::int) < 5 \<and> (0::int) < 3 \<and>
   (\<exists>n. cells_formatted (None, Some 0, Some 5, Some 0, Some 3) = Inr n \<and> 0 < n) \<and>
   cells_validated (None, Some 0, Some 5, Some 0, Some 3) = Inr 15"
  using cell_count [of None 0 5 0 3]
  by simp

subsection \<open>C9: lowercase column letters\<close>

text \<open>
  C9 as stated fails at \<open>b2\<close>: the decoder returns no bounds for it, and the bounds
  \<open>(1, 2, 1, 2)\<close> for its uppercase form \<open>B2\<close>.
\<close>

theorem lowercase_column_not_decoded:
  "parse_a1_to_indices ''b2'' = (None, None, None, None, None) \<and>
   map to_upper ''b2'' = ''B2'' \<and>
   parse_a1_to_indices ''B2'' = (None, Some 1, Some 2, Some 1, Some 2)"
  by code_simp

text \<open>
  C9, amended: the decoder is case-sensitive. For every range text, with or without a
  sheet name, whose span begins with a lowercase letter, it returns the sheet name and no
  bounds.
\<close>

theorem lowercase_first_letter_fails:
  assumes "is_lower c" and "splits_as sheet (c # rest)"
  shows "parse_a1_to_indices (range_text sheet (c # rest)) = (sheet, None, None, None, None)"
proof -
  from assms(1) have "\<not> is_upper (hd (c # rest))"
    by (simp add: is_lower_def is_upper_def)
  then have "match_range (c # rest) = None" "match_cell (c # rest) = None"
    by (simp_all add: match_range_not_upper match_cell_not_upper)
  then have "parse_range (c # rest) = (None, None, None, None)"
    by (simp add: parse_range_def)
  with assms(2) show ?thesis
    by (simp add: parse_range_text)
qed

theorem lowercase_first_letter_fails_witness:
  "is_lower CHR ''a'' \<and> splits_as (Some ''sheet1'') ''a1:c4'' \<and>
   parse_a1_to_indices ''sheet1!a1:c4'' = (Some ''sheet1'', None, None, None, None)"
proof -
  have h: "is_lower CHR ''a''" "splits_as (Some ''sheet1'') (CHR ''a'' # ''1:c4'')"
    by code_simp+
  from lowercase_first_letter_fails [OF h] h show ?thesis
    by (simp add: range_text_def)
qed

subsection \<open>C10: text after the span\<close>




end
